theory Spec2Isabelle
  imports Complex_Main "HOL-Library.Multiset" "HOL-Library.Char_ord" "HOL-Library.List_Lexorder"
begin

section \<open>The tables of the notebook\<close>

text \<open>
  The notebook \<^verbatim>\<open>uva-recommender-system.ipynb\<close> is a straight-line pandas script.
  Each pandas call it makes is embedded as one function below, named after the call.
  A float64 cell is a \<open>real option\<close>: \<open>None\<close> is NaN, \<open>Some x\<close> a number. Arithmetic
  is exact; the rounding of IEEE doubles is outside this development.

  \<^verbatim>\<open>ratings.csv\<close> has the columns userId, movieId, rating, timestamp;
  \<^verbatim>\<open>movies.csv\<close> has movieId, title, genres. The merged table carries all of them.
\<close>

type_synonym val = "real option"

record ratings_row =
  r_userId :: int
  r_movieId :: int
  r_rating :: real
  r_timestamp :: int

record movies_row =
  m_movieId :: int
  m_title :: string
  m_genres :: string

record merged_row =
  userId :: int
  movieId :: int
  rating :: real
  timestamp :: int
  title :: string
  genres :: string

text \<open>
  A DataFrame with unique row and column labels: the labels in their order, and the cell
  at a pair of labels. A Series is the list of its (label, value) entries in order.
  Indexing a frame by a column label it does not have raises Python's \<open>KeyError\<close>.
\<close>

record ('r, 'c) frame =
  index :: "'r list"
  columns :: "'c list"
  cell :: "'r \<Rightarrow> 'c \<Rightarrow> val"

type_synonym 'k series = "('k \<times> val) list"

datatype 'k error = KeyError 'k

section \<open>Collaborative filtering\<close>

text \<open>
  \<^verbatim>\<open>merged_data = pd.merge(ratings, movies, on='movieId')\<close>: the inner join. A rating
  row is paired with every movie row of the same movieId; a row of either table with no
  partner is dropped. (The order of the joined rows plays no role later: the pivot sorts.)
\<close>

definition pd_merge :: "ratings_row list \<Rightarrow> movies_row list \<Rightarrow> merged_row list" where
  "pd_merge ratings movies =
     concat (map (\<lambda>r. map (\<lambda>m. \<lparr>userId = r_userId r, movieId = r_movieId r, rating = r_rating r,
                                  timestamp = r_timestamp r, title = m_title m, genres = m_genres m\<rparr>)
                          (filter (\<lambda>m. m_movieId m = r_movieId r) movies)) ratings)"

text \<open>
  \<^verbatim>\<open>merged_data.pivot_table(index='userId', columns='title', values='rating')\<close>:
  the rows are grouped by (userId, title), each group is aggregated with the default
  \<open>aggfunc='mean'\<close>, and the groups are unstacked into a frame whose row labels are the
  sorted distinct userIds and whose column labels are the sorted distinct titles. A pair
  with no row is NaN.
\<close>

definition mean :: "real list \<Rightarrow> real" where
  "mean xs = sum_list xs / real (length xs)"

definition group_values :: "merged_row list \<Rightarrow> int \<Rightarrow> string \<Rightarrow> real list" where
  "group_values rows u t = map rating (filter (\<lambda>r. userId r = u \<and> title r = t) rows)"

definition pivot_table :: "merged_row list \<Rightarrow> (int, string) frame" where
  "pivot_table rows =
     \<lparr>index = sort (remdups (map userId rows)),
      columns = sort (remdups (map title rows)),
      cell = (\<lambda>u t. if group_values rows u t = [] then None
                      else Some (mean (group_values rows u t)))\<rparr>"

text \<open>\<^verbatim>\<open>movie_matrix.fillna(0)\<close>: every NaN cell becomes the fill value.\<close>

definition fillna :: "real \<Rightarrow> ('r, 'c) frame \<Rightarrow> ('r, 'c) frame" where
  "fillna v df = df\<lparr>cell := (\<lambda>r c. case cell df r c of None \<Rightarrow> Some v | Some x \<Rightarrow> Some x)\<rparr>"

definition movie_matrix :: "merged_row list \<Rightarrow> (int, string) frame" where
  "movie_matrix merged_data = fillna 0 (pivot_table merged_data)"

section \<open>Ranking by correlation\<close>

text \<open>
  \<^verbatim>\<open>movie_matrix[movie]\<close>: the column as a vector over the frame's rows, or \<open>KeyError\<close>.
\<close>

definition getitem :: "('r, 'c) frame \<Rightarrow> 'c \<Rightarrow> 'c error + val list" where
  "getitem df c = (if c \<in> set (columns df) then Inr (map (\<lambda>r. cell df r c) (index df))
                   else Inl (KeyError c))"

text \<open>
  \<^verbatim>\<open>df.corrwith(s)\<close> with a Series applies \<^verbatim>\<open>s.corr(x)\<close> to every column \<open>x\<close>.
  Both vectors carry the frame's own row labels, so aligning them is the identity.
  \<open>Series.corr\<close> keeps the positions where both values are numbers (\<open>valid_pairs\<close>),
  gives NaN when none is left, and otherwise takes the off-diagonal entry of
  \<open>numpy.corrcoef\<close>: the covariance with \<open>ddof = 1\<close>, divided by the two standard
  deviations in turn, clipped to the interval from -1 to 1. With one observation the
  covariance matrix is \<open>0 * inf\<close>, and with a zero variance the quotient is \<open>0 / 0\<close>:
  NaN in both cases.
\<close>

definition valid_pairs :: "val list \<Rightarrow> val list \<Rightarrow> (real \<times> real) list" where
  "valid_pairs a b = map (\<lambda>(p, q). (the p, the q)) (filter (\<lambda>(p, q). p \<noteq> None \<and> q \<noteq> None) (zip a b))"

definition cov :: "real list \<Rightarrow> real list \<Rightarrow> real" where
  "cov xs ys = (\<Sum>(x, y)\<leftarrow>zip xs ys. (x - mean xs) * (y - mean ys)) / (real (length xs) - 1)"

definition clip :: "real \<Rightarrow> real \<Rightarrow> real \<Rightarrow> real" where
  "clip lo hi x = min (max x lo) hi"

definition corrcoef :: "real list \<Rightarrow> real list \<Rightarrow> val" where
  "corrcoef xs ys =
     (if length xs < 2 then None
      else if cov xs xs = 0 \<or> cov ys ys = 0 then None
      else Some (clip (- 1) 1 (cov xs ys / sqrt (cov xs xs) / sqrt (cov ys ys))))"

definition nancorr :: "val list \<Rightarrow> val list \<Rightarrow> val" where
  "nancorr a b = (let ps = valid_pairs a b in corrcoef (map fst ps) (map snd ps))"

definition corrwith :: "('r, 'c) frame \<Rightarrow> val list \<Rightarrow> 'c series" where
  "corrwith df other = map (\<lambda>c. (c, nancorr other (map (\<lambda>r. cell df r c) (index df)))) (columns df)"

text \<open>
  \<^verbatim>\<open>s.sort_values(ascending=False)\<close>, with the defaults \<open>kind='quicksort'\<close> and
  \<open>na_position='last'\<close>. pandas splits the entries into the numbers and the NaNs,
  reverses the numbers, asks numpy for the permutation that sorts them ascending, reverses
  that permutation, and appends the NaN entries in their original order. numpy's
  \<open>argsort\<close> is a parameter here: its contract (\<open>argsort_ok\<close>) is that it returns a
  permutation of the positions that sorts the values ascending. \<open>kind='quicksort'\<close> makes
  no promise about the order of equal values.
\<close>

definition sort_values :: "(real list \<Rightarrow> nat list) \<Rightarrow> 'k series \<Rightarrow> 'k series" where
  "sort_values argsort s =
     (let good = filter (\<lambda>kv. snd kv \<noteq> None) s;
          bad = filter (\<lambda>kv. snd kv = None) s;
          rgood = rev good;
          indexer = rev (argsort (map (\<lambda>kv. the (snd kv)) rgood))
      in map (\<lambda>i. rgood ! i) indexer @ bad)"


text \<open>One sorting routine that meets the contract: insertion of (value, position) pairs.\<close>

definition insertion_argsort :: "real list \<Rightarrow> nat list" where
  "insertion_argsort xs = map snd (sort_key fst (zip xs [0..<length xs]))"


text \<open>
  The two ranking cells have the same shape:
  \<^verbatim>\<open>m.corrwith(m[movie]).sort_values(ascending=False)\<close>.
\<close>

definition recommendation ::
  "(real list \<Rightarrow> nat list) \<Rightarrow> ('r, 'c) frame \<Rightarrow> 'c \<Rightarrow> 'c error + 'c series" where
  "recommendation argsort df movie =
     (case getitem df movie of
        Inl e \<Rightarrow> Inl e
      | Inr target \<Rightarrow> Inr (sort_values argsort (corrwith df target)))"

definition collaborative_recommendation ::
  "(real list \<Rightarrow> nat list) \<Rightarrow> ratings_row list \<Rightarrow> movies_row list \<Rightarrow> string \<Rightarrow> string error + string series" where
  "collaborative_recommendation argsort ratings movies movie =
     recommendation argsort (movie_matrix (pd_merge ratings movies)) movie"

section \<open>Content filtering\<close>

text \<open>
  \<^verbatim>\<open>movies['genres'].str.split('|')\<close>: Python's \<open>str.split\<close> with a separator; the
  empty string splits into one empty piece.
\<close>

fun str_split :: "char \<Rightarrow> string \<Rightarrow> string list" where
  "str_split sep [] = [[]]"
| "str_split sep (c # cs) =
     (if c = sep then [] # str_split sep cs
      else (case str_split sep cs of [] \<Rightarrow> [[c]] | p # ps \<Rightarrow> (c # p) # ps))"

text \<open>
  \<^verbatim>\<open>pd.get_dummies(movies['genres'].explode()).sum(level=0).transpose()\<close>, on the
  movies table indexed by title. \<open>explode\<close> gives every list element a row of its own
  under the label of its list (an empty list gives one NaN row). \<open>get_dummies\<close> makes one
  indicator column per distinct label, sorted, and one indicator row per exploded row,
  so a label occurs in the index as often as its list is long. \<open>sum(level=0)\<close> groups
  the rows by their label, in order of first appearance, and adds them up.
\<close>

definition explode :: "('k \<times> 'a list) list \<Rightarrow> ('k \<times> 'a option) list" where
  "explode s = concat (map (\<lambda>(k, xs). if xs = [] then [(k, None)] else map (\<lambda>x. (k, Some x)) xs) s)"

definition unique :: "'a list \<Rightarrow> 'a list" where
  "unique xs = rev (remdups (rev xs))"

type_synonym ('r, 'c) dummies = "'c list \<times> ('r \<times> ('c \<Rightarrow> nat)) list"

definition get_dummies :: "('k \<times> ('a::linorder) option) list \<Rightarrow> ('k, 'a) dummies" where
  "get_dummies s =
     (sort (remdups (List.map_filter snd s)),
      map (\<lambda>(k, v). (k, \<lambda>c. if v = Some c then 1 else 0)) s)"

definition sum_level0 :: "('r, 'c) dummies \<Rightarrow> ('r, 'c) frame" where
  "sum_level0 d =
     \<lparr>index = unique (map fst (snd d)),
      columns = fst d,
      cell = (\<lambda>r c. Some (real (sum_list (map (\<lambda>kf. snd kf c) (filter (\<lambda>kf. fst kf = r) (snd d))))))\<rparr>"

definition transpose_frame :: "('r, 'c) frame \<Rightarrow> ('c, 'r) frame" where
  "transpose_frame df = \<lparr>index = columns df, columns = index df, cell = (\<lambda>r c. cell df c r)\<rparr>"

definition movie_features :: "movies_row list \<Rightarrow> (string, string) frame" where
  "movie_features movies =
     transpose_frame (sum_level0 (get_dummies (explode
       (map (\<lambda>m. (m_title m, str_split CHR ''|'' (m_genres m))) movies))))"


section \<open>Example tables\<close>

text \<open>Small tables on which the theorems below are instantiated.\<close>

definition mk_row :: "int \<Rightarrow> string \<Rightarrow> real \<Rightarrow> merged_row" where
  "mk_row u t r = \<lparr>userId = u, movieId = 0, rating = r, timestamp = 0, title = t, genres = []\<rparr>"

definition example_rows :: "merged_row list" where
  "example_rows = [mk_row 1 ''A'' 5, mk_row 1 ''B'' 1, mk_row 2 ''A'' 4,
                   mk_row 2 ''B'' 2, mk_row 3 ''A'' 1, mk_row 3 ''B'' 5]"

definition unsorted_rows :: "merged_row list" where
  "unsorted_rows = [mk_row 2 ''B'' 5, mk_row 1 ''A'' 3]"


definition doubled_genre :: "movies_row list" where
  "doubled_genre = [\<lparr>m_movieId = 1, m_title = ''M1'', m_genres = ''Drama|Drama''\<rparr>]"



definition twin_titles :: "movies_row list" where
  "twin_titles = [\<lparr>m_movieId = 838, m_title = ''Emma (1996)'', m_genres = ''Comedy|Drama|Romance''\<rparr>,
                  \<lparr>m_movieId = 26958, m_title = ''Emma (1996)'', m_genres = ''Romance''\<rparr>]"


definition twin_movies :: "movies_row list" where
  "twin_movies = [\<lparr>m_movieId = 1, m_title = ''A'', m_genres = ''Drama''\<rparr>,
                  \<lparr>m_movieId = 2, m_title = ''A'', m_genres = ''Comedy''\<rparr>]"

definition twin_ratings :: "ratings_row list" where
  "twin_ratings = [\<lparr>r_userId = 1, r_movieId = 2, r_rating = 5, r_timestamp = 0\<rparr>]"

definition two_movies :: "movies_row list" where
  "two_movies = [\<lparr>m_movieId = 1, m_title = ''A'', m_genres = ''Drama''\<rparr>,
                 \<lparr>m_movieId = 2, m_title = ''B'', m_genres = ''Comedy''\<rparr>]"

definition one_rating :: "ratings_row list" where
  "one_rating = [\<lparr>r_userId = 1, r_movieId = 1, r_rating = 5, r_timestamp = 0\<rparr>]"

section \<open>The rating matrix\<close>




lemma movie_matrix_index: "index (movie_matrix rows) = sort (remdups (map userId rows))"
  by (simp add: movie_matrix_def fillna_def pivot_table_def)

lemma movie_matrix_columns: "columns (movie_matrix rows) = sort (remdups (map title rows))"
  by (simp add: movie_matrix_def fillna_def pivot_table_def)

lemma movie_matrix_cell:
  "cell (movie_matrix rows) u t =
     (if group_values rows u t = [] then Some 0 else Some (mean (group_values rows u t)))"
  by (simp add: movie_matrix_def fillna_def pivot_table_def)



text \<open>
  Claim C7, as the code has it. The pivot sorts its keys: the row labels are the distinct
  user ids in strictly ascending order and the column labels are the distinct titles in
  strictly ascending (lexicographic) order, whatever the order of the input rows.
\<close>

theorem key_order_sorted:
  "sorted_wrt (<) (index (movie_matrix rows)) \<and> set (index (movie_matrix rows)) = userId ` set rows
   \<and> sorted_wrt (<) (columns (movie_matrix rows)) \<and> set (columns (movie_matrix rows)) = title ` set rows"
  by (simp add: movie_matrix_index movie_matrix_columns strict_sorted_iff)

text \<open>
  Claim C7 as stated (keys in order of first appearance) fails: user 2 and title B appear
  first in the input and come last in the matrix.
\<close>

theorem key_order_counterexample:
  "map userId unsorted_rows = [2, 1] \<and> index (movie_matrix unsorted_rows) = [1, 2]
   \<and> map title unsorted_rows = [''B'', ''A''] \<and> columns (movie_matrix unsorted_rows) = [''A'', ''B'']"
  by (simp add: movie_matrix_index movie_matrix_columns unsorted_rows_def mk_row_def)



section \<open>The feature matrix\<close>

text \<open>
  Claim C2, evaluated where it fails. The dummy rows of one title are added up, so a cell
  counts occurrences: a genre string that repeats a label gives 2, and so do two movies
  that share a title and a genre. The cell is not the 0/1 indicator of the claim.
\<close>

theorem feature_matrix_counts:
  "cell (movie_features doubled_genre) ''Drama'' ''M1'' = Some 2
   \<and> cell (movie_features twin_titles) ''Romance'' ''Emma (1996)'' = Some 2"
  by (simp add: movie_features_def transpose_frame_def sum_level0_def get_dummies_def explode_def
      doubled_genre_def twin_titles_def)

section \<open>Ranking\<close>

text \<open>
  Claim C6. Ranking against a key that is not a column of the matrix fails with
  \<open>KeyError\<close> (the unknown-target error of the notebook) and returns no ranking.
\<close>

theorem unknown_target_keyerror:
  assumes "movie \<notin> set (columns df)"
  shows "recommendation argsort df movie = Inl (KeyError movie)"
  using assms by (simp add: recommendation_def getitem_def)

theorem unknown_target_keyerror_witness:
  "''Z'' \<notin> set (columns (movie_matrix example_rows))
   \<and> recommendation insertion_argsort (movie_matrix example_rows) ''Z'' = Inl (KeyError ''Z'')"
proof -
  have h: "''Z'' \<notin> set (columns (movie_matrix example_rows))"
    by (simp add: movie_matrix_columns example_rows_def mk_row_def)
  show ?thesis using h unknown_target_keyerror [OF h] by simp
qed

section \<open>The sorting contract\<close>








lemma insertion_argsort_Nil: "insertion_argsort [] = []"
  by (simp add: insertion_argsort_def)

section \<open>The sorted series\<close>














section \<open>Correlation with a constant vector\<close>










section \<open>Self-correlation\<close>
















section \<open>Unrated items\<close>

lemma pd_merge_titles:
  "title ` set (pd_merge ratings movies)
     = {m_title m | m r. m \<in> set movies \<and> r \<in> set ratings \<and> m_movieId m = r_movieId r}"
  by (auto simp: pd_merge_def image_iff) force+

text \<open>
  Claim C10, as the code has it. A title none of whose movies has a rating row is not a
  column of the rating matrix, and ranking against it fails with \<open>KeyError\<close>. The
  columns are keyed by title, so the condition is on every movie that carries the title.
\<close>

theorem unrated_title_absent:
  assumes "\<forall>m\<in>set movies. m_title m = t \<longrightarrow> (\<forall>r\<in>set ratings. r_movieId r \<noteq> m_movieId m)"
  shows "t \<notin> set (columns (movie_matrix (pd_merge ratings movies)))
       \<and> collaborative_recommendation argsort ratings movies t = Inl (KeyError t)"
proof -
  have "t \<notin> title ` set (pd_merge ratings movies)"
    using assms by (simp add: pd_merge_titles) metis
  then have a: "t \<notin> set (columns (movie_matrix (pd_merge ratings movies)))"
    by (simp add: movie_matrix_columns)
  then show ?thesis
    by (simp add: collaborative_recommendation_def recommendation_def getitem_def)
qed

theorem unrated_title_absent_witness:
  "\<lparr>m_movieId = 2, m_title = ''B'', m_genres = ''Comedy''\<rparr> \<in> set two_movies
   \<and> map m_movieId (filter (\<lambda>m. m_title m = ''B'') two_movies) = [2]
   \<and> filter (\<lambda>r. r_movieId r = 2) one_rating = []
   \<and> ''B'' \<notin> set (columns (movie_matrix (pd_merge one_rating two_movies)))
   \<and> collaborative_recommendation insertion_argsort one_rating two_movies ''B'' = Inl (KeyError ''B'')"
proof -
  have h: "\<forall>m\<in>set two_movies. m_title m = ''B'' \<longrightarrow> (\<forall>r\<in>set one_rating. r_movieId r \<noteq> m_movieId m)"
    by (simp add: two_movies_def one_rating_def)
  have m: "\<lparr>m_movieId = 2, m_title = ''B'', m_genres = ''Comedy''\<rparr> \<in> set two_movies"
    by (simp add: two_movies_def)
  have f: "map m_movieId (filter (\<lambda>m. m_title m = ''B'') two_movies) = [2]"
    by (simp add: two_movies_def)
  have g: "filter (\<lambda>r. r_movieId r = 2) one_rating = []"
    by (simp add: one_rating_def)
  show ?thesis using m f g unrated_title_absent [OF h, of insertion_argsort] by simp
qed

text \<open>
  Claim C10 as stated fails when titles repeat: movie 1 has no rating row, yet its title
  A is a column (movie 2, also titled A, is rated) and ranking against A returns a
  ranking.
\<close>

theorem unrated_title_counterexample:
  "\<lparr>m_movieId = 1, m_title = ''A'', m_genres = ''Drama''\<rparr> \<in> set twin_movies
   \<and> filter (\<lambda>r. r_movieId r = 1) twin_ratings = []
   \<and> columns (movie_matrix (pd_merge twin_ratings twin_movies)) = [''A'']
   \<and> collaborative_recommendation insertion_argsort twin_ratings twin_movies ''A'' = Inr [(''A'', None)]"
  by (simp add: collaborative_recommendation_def recommendation_def getitem_def corrwith_def
      nancorr_def valid_pairs_def corrcoef_def sort_values_def insertion_argsort_Nil
      movie_matrix_index movie_matrix_columns movie_matrix_cell group_values_def
      pd_merge_def twin_movies_def twin_ratings_def)

end
